theory Spec2Isabelle
  imports Main "HOL-Library.Word" "HOL-Library.Signed_Division"
begin

unbundle bit_operations_syntax

section \<open>The SFO codec of ps3-sfo-parser (package sfo)\<close>

text \<open>
  A shallow embedding of the Go package \<open>sfo\<close>: the header and section records, the
  decoder \<open>NewSFOParser\<close>, the encoder \<open>SaveSFO\<close> and the accessors. Go's \<open>byte\<close>,
  \<open>int16\<close> and \<open>int32\<close> are words of that width (\<open>sint\<close> reads them signed); Go's
  \<open>string\<close> and \<open>[]byte\<close> are both byte sequences. Go's \<open>int\<close> is 64 bits wide:
  \<open>alignment\<close>, the one function that computes with an \<open>int\<close> it is given, works on
  64-bit words and wraps as the source does. Elsewhere an \<open>int\<close> is a buffer length, a
  loop counter below an \<open>int32\<close> bound or an index that is only compared, and is a HOL
  \<open>nat\<close> or \<open>int\<close>. An allocation by \<open>make\<close> with a non-negative length succeeds.
\<close>

subsection \<open>Data model\<close>

type_synonym byte = "8 word"
type_synonym gostring = "byte list"
type_synonym byte4 = "byte \<times> byte \<times> byte \<times> byte"
type_synonym goint = "64 word"

text \<open>\<open>type SFOType byte\<close> with its three named constants.\<close>

type_synonym SFOType = byte

definition ByteType :: SFOType where "ByteType = 0"
definition StringType :: SFOType where "StringType = 2"
definition IntType :: SFOType where "IntType = 4"

record PsfHdr =
  Psf :: byte4
  Unknown :: byte4
  LabelPtr :: "32 word"
  DataPtr :: "32 word"
  NSects :: "32 word"

record PsfSec =
  LabelOff :: "16 word"
  SecUnknown :: byte
  DataType :: byte
  DatafieldUsed :: "32 word"
  DatafieldSize :: "32 word"
  DataOff :: "32 word"

text \<open>
  \<open>Value interface{}\<close>: the dynamic values the package stores are \<open>[]byte\<close>, \<open>string\<close>
  and \<open>int32\<close>; \<open>VNil\<close> is the zero value of the interface.
\<close>

datatype go_value = VNil | VBytes "byte list" | VString gostring | VInt32 "32 word"

text \<open>
  The field \<open>PsfSec\<close> of \<open>SFOPair\<close> is \<open>PairPsfSec\<close> here, apart from the field \<open>PsfSec\<close>
  of \<open>SFOParser\<close>.
\<close>

record SFOPair =
  Label :: gostring
  Type :: SFOType
  Value :: go_value
  PairPsfSec :: PsfSec

record SFOParser =
  PsfHdr :: PsfHdr
  PsfSec :: "PsfSec list"
  Pairs :: "SFOPair list"
  FilePath :: string

subsection \<open>Errors and panics\<close>

text \<open>
  The package returns plain \<open>errors.New\<close> values, told apart by their message, or passes
  on the error of a library call. \<open>NotValidSFO\<close> is "not a valid SFO file",
  \<open>KeyNotFound\<close> "key not found", \<open>IndexOutOfRange\<close> "index out of range",
  \<open>UnknownType\<close> "unknown type"; \<open>EOF\<close> and \<open>UnexpectedEOF\<close> are \<open>io.EOF\<close> and
  \<open>io.ErrUnexpectedEOF\<close>; \<open>PathError\<close> is the error of \<open>os.Stat\<close>, \<open>os.Open\<close> or
  \<open>os.OpenFile\<close>; \<open>ScanError\<close> is the error that \<open>fmt.Sscanf\<close> returned, whichever it is
  (\<open>io.EOF\<close> itself when the input ends before a number, a scan error otherwise).
  A run-time panic (index out of range, negative \<open>make\<close> length, failed type assertion,
  integer division by zero) is not an error value: it is the third outcome \<open>Panic\<close>.
\<close>

datatype error = PathError | EOF | UnexpectedEOF | NotValidSFO | KeyNotFound
  | IndexOutOfRange | UnknownType | ScanError

datatype panic = IndexPanic | MakeSlicePanic | TypeAssertPanic | DivideByZeroPanic

datatype 'a result = Ok 'a | Err error | Panic panic

fun bind :: "'a result \<Rightarrow> ('a \<Rightarrow> 'b result) \<Rightarrow> 'b result" where
  "bind (Ok x) f = f x"
| "bind (Err e) f = Err e"
| "bind (Panic p) f = Panic p"

subsection \<open>alignment\<close>

text \<open>
  \<open>x % y\<close> on \<open>int\<close> is the remainder of the division truncated towards zero (\<open>smod\<close>
  on the signed values); the source panics when \<open>y\<close> is 0. \<open>+\<close> and \<open>-\<close> wrap around at 64
  bits. The constant added is 4 whatever \<open>align\<close> is, as in the source.
\<close>

definition go_rem :: "goint \<Rightarrow> goint \<Rightarrow> goint" where
  "go_rem x y = word_of_int (sint x smod sint y)"

definition alignment :: "goint \<Rightarrow> goint \<Rightarrow> goint result" where
  "alignment num align =
     (if align = 0 then Panic DivideByZeroPanic
      else let tmp = go_rem num align
           in if tmp \<noteq> 0 then Ok (num + 4 - tmp) else Ok num)"

subsection \<open>Accessors and mutators\<close>

fun GetValue_loop :: "SFOPair list \<Rightarrow> gostring \<Rightarrow> go_value result" where
  "GetValue_loop [] key = Err KeyNotFound"
| "GetValue_loop (pair # pairs) key =
     (if Label pair = key then Ok (Value pair) else GetValue_loop pairs key)"

definition GetValue :: "SFOParser \<Rightarrow> gostring \<Rightarrow> go_value result" where
  "GetValue parser key = GetValue_loop (Pairs parser) key"

definition GetLength :: "SFOParser \<Rightarrow> int" where
  "GetLength parser = sint (NSects (PsfHdr parser))"

definition GetValueByIndex :: "SFOParser \<Rightarrow> int \<Rightarrow> go_value result" where
  "GetValueByIndex parser index =
     (if index < 0 \<or> index \<ge> int (length (Pairs parser)) then Err IndexOutOfRange
      else Ok (Value (Pairs parser ! nat index)))"

definition GetKeyByIndex :: "SFOParser \<Rightarrow> int \<Rightarrow> gostring result" where
  "GetKeyByIndex parser index =
     (if index < 0 \<or> index \<ge> int (length (Pairs parser)) then Err IndexOutOfRange
      else Ok (Label (Pairs parser ! nat index)))"

definition GetTypeByIndex :: "SFOParser \<Rightarrow> int \<Rightarrow> byte result" where
  "GetTypeByIndex parser index =
     (if index < 0 \<or> index \<ge> int (length (Pairs parser)) then Err IndexOutOfRange
      else Ok (Type (Pairs parser ! nat index)))"

text \<open>
  The mutators work on the parser in place, so they return the parser as it is after the
  call together with the outcome of the call.

  \<open>fmt.Sscanf(value, "%d", &intValue)\<close> belongs to Go's standard library, not to the
  package: \<open>SetValueByIndex\<close> takes it as the parameter \<open>scan\<close>, which returns \<open>None\<close>
  when \<open>Sscanf\<close> returns an error and the scanned \<open>int32\<close> otherwise.
  \<open>value[len(value)-1]\<close> panics on the empty string.
\<close>

definition set_pair_value :: "SFOParser \<Rightarrow> nat \<Rightarrow> go_value \<Rightarrow> SFOParser" where
  "set_pair_value parser i v =
     parser\<lparr>Pairs := (Pairs parser)[i := (Pairs parser ! i)\<lparr>Value := v\<rparr>]\<rparr>"

definition SetValueByIndex ::
  "(gostring \<Rightarrow> 32 word option) \<Rightarrow> SFOParser \<Rightarrow> int \<Rightarrow> gostring \<Rightarrow> SFOParser \<times> unit result"
where
  "SetValueByIndex scan parser index val =
     (if index < 0 \<or> index \<ge> int (length (Pairs parser)) then (parser, Err IndexOutOfRange)
      else let i = nat index; ty = Type (Pairs parser ! i) in
        if ty = ByteType then (set_pair_value parser i (VBytes val), Ok ())
        else if ty = StringType then
          (if val = [] then (parser, Panic IndexPanic)
           else (set_pair_value parser i (VString (if last val \<noteq> 0 then val @ [0] else val)),
                 Ok ()))
        else if ty = IntType then
          (case scan val of
             None \<Rightarrow> (parser, Err ScanError)
           | Some intValue \<Rightarrow> (set_pair_value parser i (VInt32 intValue), Ok ()))
        else (parser, Err UnknownType))"

definition SetLabelByIndex :: "SFOParser \<Rightarrow> int \<Rightarrow> gostring \<Rightarrow> SFOParser \<times> unit result" where
  "SetLabelByIndex parser index val =
     (if index < 0 \<or> index \<ge> int (length (Pairs parser)) then (parser, Err IndexOutOfRange)
      else (parser\<lparr>Pairs := (Pairs parser)[nat index := (Pairs parser ! nat index)\<lparr>Label := val\<rparr>]\<rparr>,
            Ok ()))"

subsection \<open>A decimal scanner\<close>

text \<open>
  What \<open>fmt.Sscanf(value, "%d", &intValue)\<close> with an \<open>int32\<close> operand does, for inputs
  below the scanner's limit of \<open>2 ^ 30\<close> characters: it skips leading white space (the
  Unicode white-space characters, here in their UTF-8 encoding), fails on a newline among
  them, accepts one optional sign, needs at least one decimal digit, takes all the digits
  that follow, ignores what comes after them, and fails when the number does not fit
  \<open>int32\<close>. It is an instance of the parameter \<open>scan\<close>.
\<close>

definition space_len :: "gostring \<Rightarrow> nat" where
  "space_len s =
     (case s of
        [] \<Rightarrow> 0
      | b0 # r0 \<Rightarrow>
          if b0 \<in> {0x09, 0x0A, 0x0B, 0x0C, 0x0D, 0x20} then 1
          else (case r0 of
             [] \<Rightarrow> 0
           | b1 # r1 \<Rightarrow>
               if b0 = 0xC2 \<and> b1 \<in> {0x85, 0xA0} then 2
               else (case r1 of
                  [] \<Rightarrow> 0
                | b2 # r2 \<Rightarrow>
                    if b0 = 0xE1 \<and> b1 = 0x9A \<and> b2 = 0x80 then 3
                    else if b0 = 0xE2 \<and> b1 = 0x80
                         \<and> (0x80 \<le> b2 \<and> b2 \<le> 0x8A \<or> b2 \<in> {0xA8, 0xA9, 0xAF}) then 3
                    else if b0 = 0xE2 \<and> b1 = 0x81 \<and> b2 = 0x9F then 3
                    else if b0 = 0xE3 \<and> b1 = 0x80 \<and> b2 = 0x80 then 3
                    else 0)))"

function SkipSpace :: "gostring \<Rightarrow> gostring option" where
  "SkipSpace s =
     (if s = [] then Some []
      else if hd s = 0x0A then None
      else if space_len s = 0 then Some s
      else SkipSpace (drop (space_len s) s))"
  by pat_completeness auto
termination
  by (relation "measure length") auto

definition is_digit :: "byte \<Rightarrow> bool" where
  "is_digit b = (0x30 \<le> b \<and> b \<le> 0x39)"

fun digits_value :: "int \<Rightarrow> gostring \<Rightarrow> int" where
  "digits_value acc [] = acc"
| "digits_value acc (b # bs) = digits_value (acc * 10 + (uint b - 0x30)) bs"


definition Sscanf_d :: "gostring \<Rightarrow> 32 word option" where
  "Sscanf_d val =
     (case SkipSpace val of
        None \<Rightarrow> None
      | Some s \<Rightarrow>
          let neg = (s \<noteq> [] \<and> hd s = 0x2D);
              t = (if s \<noteq> [] \<and> hd s \<in> {0x2B, 0x2D} then tl s else s);
              tok = takeWhile is_digit t;
              n = (if neg then - digits_value 0 tok else digits_value 0 tok)
          in if tok = [] then None
             else if n < - (2 ^ 31) \<or> 2 ^ 31 \<le> n then None
             else Some (word_of_int n))"

subsection \<open>Files\<close>

text \<open>
  A path names nothing, a directory or a regular file. An open file is its content and
  the offset of the next read or write; the decoder only reads, so it passes the offset
  along. \<open>file.Seek(offset, io.SeekStart)\<close> fails on a negative offset and leaves the
  offset where it was; the package ignores the error. Seeking past the end is allowed.
\<close>

datatype node = Dir | File "byte list"

type_synonym filesystem = "string \<rightharpoonup> node"

definition Seek :: "nat \<Rightarrow> int \<Rightarrow> nat" where
  "Seek pos offset = (if offset < 0 then pos else nat offset)"

text \<open>
  \<open>file.Read(buf)\<close> with \<open>len(buf) = n\<close>: nothing is read into an empty buffer; at the
  end of the file the error is \<open>io.EOF\<close>; otherwise the bytes available, at most \<open>n\<close>,
  are copied to the front of \<open>buf\<close>, whose other bytes stay 0 as \<open>make\<close> left them, and
  there is no error. The result is the buffer after the call and the new offset.
\<close>

definition file_Read :: "byte list \<Rightarrow> nat \<Rightarrow> nat \<Rightarrow> (byte list \<times> nat) result" where
  "file_Read content pos n =
     (if n = 0 then Ok ([], pos)
      else if length content \<le> pos then Err EOF
      else let got = take n (drop pos content)
           in Ok (got @ replicate (n - length got) 0, pos + length got))"

text \<open>
  \<open>binary.Read\<close> fills a buffer of the size of the structure with \<open>io.ReadFull\<close>:
  \<open>io.EOF\<close> when no byte is left, \<open>io.ErrUnexpectedEOF\<close> when too few are.
\<close>

definition ReadFull :: "byte list \<Rightarrow> nat \<Rightarrow> nat \<Rightarrow> (byte list \<times> nat) result" where
  "ReadFull content pos n =
     (if n = 0 then Ok ([], pos)
      else if length content \<le> pos then Err EOF
      else if length content - pos < n then Err UnexpectedEOF
      else Ok (take n (drop pos content), pos + n))"

subsection \<open>Little-endian fields\<close>

definition le16 :: "byte list \<Rightarrow> 16 word" where
  "le16 b = ucast (b ! 0) OR push_bit 8 (ucast (b ! 1))"

definition le32 :: "byte list \<Rightarrow> 32 word" where
  "le32 b = ucast (b ! 0) OR push_bit 8 (ucast (b ! 1))
            OR push_bit 16 (ucast (b ! 2)) OR push_bit 24 (ucast (b ! 3))"

definition put16 :: "16 word \<Rightarrow> byte list" where
  "put16 w = [ucast w, ucast (drop_bit 8 w)]"

definition put32 :: "32 word \<Rightarrow> byte list" where
  "put32 w = [ucast w, ucast (drop_bit 8 w), ucast (drop_bit 16 w), ucast (drop_bit 24 w)]"

text \<open>
  \<open>binary.Size\<close> of the header is 20 and of a section 16: the fields in order, without
  padding. The two decoders are applied to buffers of exactly that size.
\<close>

definition decode_PsfHdr :: "byte list \<Rightarrow> PsfHdr" where
  "decode_PsfHdr b =
     \<lparr>Psf = (b ! 0, b ! 1, b ! 2, b ! 3), Unknown = (b ! 4, b ! 5, b ! 6, b ! 7),
      LabelPtr = le32 (drop 8 b), DataPtr = le32 (drop 12 b), NSects = le32 (drop 16 b)\<rparr>"

definition decode_PsfSec :: "byte list \<Rightarrow> PsfSec" where
  "decode_PsfSec b =
     \<lparr>LabelOff = le16 b, SecUnknown = b ! 2, DataType = b ! 3,
      DatafieldUsed = le32 (drop 4 b), DatafieldSize = le32 (drop 8 b),
      DataOff = le32 (drop 12 b)\<rparr>"

definition encode_PsfHdr :: "PsfHdr \<Rightarrow> byte list" where
  "encode_PsfHdr h =
     (case Psf h of (p0, p1, p2, p3) \<Rightarrow> [p0, p1, p2, p3])
     @ (case Unknown h of (u0, u1, u2, u3) \<Rightarrow> [u0, u1, u2, u3])
     @ put32 (LabelPtr h) @ put32 (DataPtr h) @ put32 (NSects h)"

definition encode_PsfSec :: "PsfSec \<Rightarrow> byte list" where
  "encode_PsfSec s =
     put16 (LabelOff s) @ [SecUnknown s, DataType s]
     @ put32 (DatafieldUsed s) @ put32 (DatafieldSize s) @ put32 (DataOff s)"

subsection \<open>readByteString\<close>

text \<open>One byte is read per turn of the loop; the end of the file is the error \<open>io.EOF\<close>.\<close>

function readByteString_loop :: "byte list \<Rightarrow> nat \<Rightarrow> byte list \<Rightarrow> (byte list \<times> nat) result" where
  "readByteString_loop content pos res =
     (if length content \<le> pos then Err EOF
      else if content ! pos = 0 then Ok (res, pos + 1)
      else readByteString_loop content (pos + 1) (res @ [content ! pos]))"
  by pat_completeness auto
termination
  by (relation "measure (\<lambda>(content, pos, res). length content - pos)") auto

declare readByteString_loop.simps [simp del]

definition readByteString :: "byte list \<Rightarrow> nat \<Rightarrow> (byte list \<times> nat) result" where
  "readByteString content pos = readByteString_loop content pos []"

subsection \<open>NewSFOParser\<close>

fun read_secs :: "byte list \<Rightarrow> nat \<Rightarrow> nat \<Rightarrow> (PsfSec list \<times> nat) result" where
  "read_secs content pos 0 = Ok ([], pos)"
| "read_secs content pos (Suc n) =
     bind (ReadFull content pos 16) (\<lambda>(b, pos').
     bind (read_secs content pos' n) (\<lambda>(secs, pos'').
       Ok (decode_PsfSec b # secs, pos'')))"

text \<open>
  The \<open>switch\<close> on the section's type has no default: any other type leaves the value
  \<open>nil\<close>. \<open>binary.LittleEndian.Uint32\<close> panics on a buffer shorter than 4 bytes.
\<close>

definition decode_value :: "byte \<Rightarrow> byte list \<Rightarrow> go_value result" where
  "decode_value ty tmpbuffer =
     (if ty = 0 then Ok (VBytes tmpbuffer)
      else if ty = 2 then Ok (VString tmpbuffer)
      else if ty = 4 then
        (if length tmpbuffer < 4 then Panic IndexPanic else Ok (VInt32 (le32 tmpbuffer)))
      else Ok VNil)"

text \<open>
  The label is sought at \<open>LabelOff + int16(LabelPtr)\<close>, a 16-bit sum, the data at
  \<open>DataOff + DataPtr\<close>, a 32-bit sum. \<open>make\<close> panics on a negative length.
\<close>

definition label_seek :: "PsfHdr \<Rightarrow> PsfSec \<Rightarrow> int" where
  "label_seek hdr sec = sint (LabelOff sec + (ucast (LabelPtr hdr) :: 16 word))"

definition data_seek :: "PsfHdr \<Rightarrow> PsfSec \<Rightarrow> int" where
  "data_seek hdr sec = sint (DataOff sec + DataPtr hdr)"

fun read_pairs :: "byte list \<Rightarrow> PsfHdr \<Rightarrow> nat \<Rightarrow> PsfSec list \<Rightarrow> SFOPair list result" where
  "read_pairs content hdr pos [] = Ok []"
| "read_pairs content hdr pos (sec # secs) =
     bind (readByteString content (Seek pos (label_seek hdr sec))) (\<lambda>(lbl, pos').
       if sint (DatafieldUsed sec) < 0 then Panic MakeSlicePanic
       else
     bind (file_Read content (Seek pos' (data_seek hdr sec)) (nat (sint (DatafieldUsed sec))))
       (\<lambda>(tmpbuffer, pos'').
     bind (decode_value (DataType sec) tmpbuffer) (\<lambda>v.
     bind (read_pairs content hdr pos'' secs) (\<lambda>pairs.
       Ok (\<lparr>Label = lbl, Type = DataType sec, Value = v, PairPsfSec = sec\<rparr> # pairs)))))"

definition magic :: byte4 where
  "magic = (0, 0x50, 0x53, 0x46)"

definition NewSFOParser :: "filesystem \<Rightarrow> string \<Rightarrow> SFOParser result" where
  "NewSFOParser fs filePath =
     (case fs filePath of
        None \<Rightarrow> Err PathError
      | Some Dir \<Rightarrow> Err NotValidSFO
      | Some (File content) \<Rightarrow>
          bind (ReadFull content 0 20) (\<lambda>(b, pos).
            let hdr = decode_PsfHdr b in
            if Psf hdr \<noteq> magic then Err NotValidSFO
            else if sint (NSects hdr) < 0 then Panic MakeSlicePanic
            else
          bind (read_secs content pos (nat (sint (NSects hdr)))) (\<lambda>(secs, pos').
          bind (read_pairs content hdr pos' secs) (\<lambda>pairs.
            Ok \<lparr>PsfHdr = hdr, PsfSec = secs, Pairs = pairs, FilePath = filePath\<rparr>))))"

subsection \<open>SaveSFO\<close>

text \<open>
  \<open>buf.WriteByte(0)\<close> while \<open>buf.Len() < limit\<close>. In the two loops below,
  \<open>int(DatafieldUsed)\<close> extends the sign to 64 bits, and \<open>int32(alignment(...))\<close> keeps
  the low 32 bits.
\<close>

definition pad_to :: "byte list \<Rightarrow> int \<Rightarrow> byte list" where
  "pad_to buf limit = buf @ replicate (nat (limit - int (length buf))) 0"

text \<open>
  The first loop: \<open>LabelOff\<close> is \<open>int16(buf.Len())\<close>, then the label and a 0 byte go to
  the buffer. Indexing \<open>PsfSec\<close> or \<open>Pairs\<close> beyond its length panics.
\<close>

function label_loop ::
  "SFOPair list \<Rightarrow> int \<Rightarrow> int \<Rightarrow> PsfSec list \<times> byte list \<Rightarrow> (PsfSec list \<times> byte list) result"
where
  "label_loop pairs i n (secs, buf) =
     (if i < n then
        (if i < 0 \<or> int (length secs) \<le> i \<or> int (length pairs) \<le> i then Panic IndexPanic
         else label_loop pairs (i + 1) n
                (secs[nat i := (secs ! nat i)\<lparr>LabelOff := of_nat (length buf)\<rparr>],
                 buf @ Label (pairs ! nat i) @ [0]))
      else Ok (secs, buf))"
  by pat_completeness auto
termination
  by (relation "measure (\<lambda>(pairs, i, n, st). nat (n - i))") auto

declare label_loop.simps [simp del]

text \<open>
  The \<open>switch\<close> of the second loop: a type assertion panics when the value is not of the
  asserted type; there is no default, so any other type writes nothing.
\<close>

definition write_value :: "SFOType \<Rightarrow> go_value \<Rightarrow> byte list \<Rightarrow> byte list result" where
  "write_value ty v buf =
     (if ty = 0 then (case v of VBytes b \<Rightarrow> Ok (buf @ b) | _ \<Rightarrow> Panic TypeAssertPanic)
      else if ty = 2 then (case v of VString t \<Rightarrow> Ok (buf @ t) | _ \<Rightarrow> Panic TypeAssertPanic)
      else if ty = 4 then (case v of VInt32 w \<Rightarrow> Ok (buf @ put32 w) | _ \<Rightarrow> Panic TypeAssertPanic)
      else Ok buf)"

function data_loop ::
  "SFOPair list \<Rightarrow> int \<Rightarrow> int \<Rightarrow> PsfSec list \<times> byte list \<Rightarrow> (PsfSec list \<times> byte list) result"
where
  "data_loop pairs i n (secs, buf) =
     (if i < n then
        (if i < 0 \<or> int (length secs) \<le> i \<or> int (length pairs) \<le> i then Panic IndexPanic
         else
           let off = (of_nat (length buf) :: 32 word) in
           bind (write_value (Type (pairs ! nat i)) (Value (pairs ! nat i)) buf) (\<lambda>buf'.
             let used = (of_nat (length buf') :: 32 word) - off in
           bind (alignment (scast used) 4) (\<lambda>a.
             let size = (ucast a :: 32 word) in
             data_loop pairs (i + 1) n
               (secs[nat i := (secs ! nat i)\<lparr>DataOff := off, DatafieldUsed := used,
                                              DatafieldSize := size\<rparr>],
                pad_to buf' (sint (off + size))))))
      else Ok (secs, buf))"
  by pat_completeness auto
termination
  by (relation "measure (\<lambda>(pairs, i, n, st). nat (n - i))") auto

declare data_loop.simps [simp del]

text \<open>
  The file is opened \<open>O_WRONLY\<close> without truncation: a write replaces the bytes at the
  offset, extends the file when it goes past the end, and a gap left by a seek past the
  end reads as zeros. The errors of \<open>binary.Write\<close> are not looked at.
\<close>

definition file_Write :: "byte list \<Rightarrow> nat \<Rightarrow> byte list \<Rightarrow> byte list \<times> nat" where
  "file_Write content pos b =
     (if b = [] then (content, pos)
      else (take pos content @ replicate (pos - length content) 0 @ b
              @ drop (pos + length b) content,
            pos + length b))"

fun write_secs :: "byte list \<times> nat \<Rightarrow> PsfSec list \<Rightarrow> byte list \<times> nat" where
  "write_secs (content, pos) [] = (content, pos)"
| "write_secs (content, pos) (sec # secs) =
     write_secs (file_Write content pos (encode_PsfSec sec)) secs"

text \<open>
  \<open>SaveSFO\<close> returns an error only when the file cannot be opened, before anything is
  changed; otherwise the result is the parser and the file system after the call. A panic
  ends the call in the middle of its updates; what the parser holds then is not kept. The
  buffer \<open>buf\<close> holds the labels and then the data; the file is written twice, the
  sections at offset 20 and the header at offset 0.
\<close>

definition SaveSFO :: "SFOParser \<Rightarrow> filesystem \<Rightarrow> (SFOParser \<times> filesystem) result" where
  "SaveSFO parser fs =
     (case fs (FilePath parser) of
        None \<Rightarrow> Err PathError
      | Some Dir \<Rightarrow> Err PathError
      | Some (File content) \<Rightarrow>
          let hdr1 = (PsfHdr parser)\<lparr>LabelPtr := of_nat (20 + length (PsfSec parser) * 16)\<rparr>;
              n = sint (NSects hdr1)
          in
          bind (label_loop (Pairs parser) 0 n (PsfSec parser, [])) (\<lambda>(secs1, buf1).
          bind (alignment (of_nat (length buf1)) 4) (\<lambda>a.
            let hdr2 = hdr1\<lparr>DataPtr := ucast a\<rparr>;
                buf2 = pad_to buf1 (sint (DataPtr hdr2))
            in
          bind (data_loop (Pairs parser) 0 n (secs1, buf2)) (\<lambda>(secs2, buf3).
            let (content1, pos1) = write_secs (content, Seek 0 20) secs2;
                hdr3 = hdr2\<lparr>LabelPtr := of_nat (20 + length secs2 * 16)\<rparr>;
                (content2, pos2) = file_Write content1 (Seek pos1 0) (encode_PsfHdr hdr3)
            in Ok (parser\<lparr>PsfHdr := hdr3, PsfSec := secs2\<rparr>,
                   fs(FilePath parser \<mapsto> File content2))))))"

subsection \<open>Example streams and models\<close>

text \<open>
  The two-entry example: a text entry TITLE with the value "Game" and its terminator, and
  an integer entry VERSION with the value 1. \<open>example_file\<close> is its stream in the layout
  of the format: the header (20 bytes), two sections (32 bytes), the label block at offset
  52 (14 bytes padded to 16), the data block at offset 68 (5 bytes padded to 8, then 4
  bytes). \<open>example_parser\<close> is the model decoded from it.
\<close>

definition example_file :: "byte list" where
  "example_file =
     [0, 0x50, 0x53, 0x46,  1, 1, 0, 0,  52, 0, 0, 0,  68, 0, 0, 0,  2, 0, 0, 0,
      0, 0, 4, 2,  5, 0, 0, 0,  8, 0, 0, 0,  0, 0, 0, 0,
      6, 0, 4, 4,  4, 0, 0, 0,  4, 0, 0, 0,  8, 0, 0, 0,
      0x54, 0x49, 0x54, 0x4C, 0x45, 0,  0x56, 0x45, 0x52, 0x53, 0x49, 0x4F, 0x4E, 0,  0, 0,
      0x47, 0x61, 0x6D, 0x65, 0,  0, 0, 0,  1, 0, 0, 0]"

definition example_title_sec :: PsfSec where
  "example_title_sec = \<lparr>LabelOff = 0, SecUnknown = 4, DataType = 2, DatafieldUsed = 5,
     DatafieldSize = 8, DataOff = 0\<rparr>"

definition example_version_sec :: PsfSec where
  "example_version_sec = \<lparr>LabelOff = 6, SecUnknown = 4, DataType = 4, DatafieldUsed = 4,
     DatafieldSize = 4, DataOff = 8\<rparr>"

definition example_parser :: SFOParser where
  "example_parser =
     \<lparr>PsfHdr = \<lparr>Psf = (0, 0x50, 0x53, 0x46), Unknown = (1, 1, 0, 0), LabelPtr = 52,
                DataPtr = 68, NSects = 2\<rparr>,
      PsfSec = [example_title_sec, example_version_sec],
      Pairs = [\<lparr>Label = [0x54, 0x49, 0x54, 0x4C, 0x45], Type = 2,
                 Value = VString [0x47, 0x61, 0x6D, 0x65, 0], PairPsfSec = example_title_sec\<rparr>,
               \<lparr>Label = [0x56, 0x45, 0x52, 0x53, 0x49, 0x4F, 0x4E], Type = 4,
                 Value = VInt32 1, PairPsfSec = example_version_sec\<rparr>],
      FilePath = ''PARAM.SFO''\<rparr>"

text \<open>
  What \<open>SaveSFO\<close> makes of \<open>example_file\<close>: \<open>DataPtr\<close> is 16 and the two \<open>DataOff\<close> are 16
  and 24; the rest is as before.
\<close>

definition example_resaved :: "byte list" where
  "example_resaved =
     [0, 0x50, 0x53, 0x46,  1, 1, 0, 0,  52, 0, 0, 0,  16, 0, 0, 0,  2, 0, 0, 0,
      0, 0, 4, 2,  5, 0, 0, 0,  8, 0, 0, 0,  16, 0, 0, 0,
      6, 0, 4, 4,  4, 0, 0, 0,  4, 0, 0, 0,  24, 0, 0, 0,
      0x54, 0x49, 0x54, 0x4C, 0x45, 0,  0x56, 0x45, 0x52, 0x53, 0x49, 0x4F, 0x4E, 0,  0, 0,
      0x47, 0x61, 0x6D, 0x65, 0,  0, 0, 0,  1, 0, 0, 0]"

text \<open>The header and the two sections of \<open>example_resaved\<close>, its first 52 bytes.\<close>

definition example_saved_head :: "byte list" where
  "example_saved_head =
     [0, 0x50, 0x53, 0x46,  1, 1, 0, 0,  52, 0, 0, 0,  16, 0, 0, 0,  2, 0, 0, 0,
      0, 0, 4, 2,  5, 0, 0, 0,  8, 0, 0, 0,  16, 0, 0, 0,
      6, 0, 4, 4,  4, 0, 0, 0,  4, 0, 0, 0,  24, 0, 0, 0]"

text \<open>
  \<open>relabelled_file\<close> is what \<open>SaveSFO\<close> writes over \<open>example_file\<close> once the first label
  of the example model has been set to TITLEID: the second \<open>LabelOff\<close> is 8, the label
  block of the file is the old one. \<open>relabelled_resaved\<close> is what decoding and saving that
  stream gives.
\<close>

definition relabelled_file :: "byte list" where
  "relabelled_file =
     [0, 0x50, 0x53, 0x46,  1, 1, 0, 0,  52, 0, 0, 0,  16, 0, 0, 0,  2, 0, 0, 0,
      0, 0, 4, 2,  5, 0, 0, 0,  8, 0, 0, 0,  16, 0, 0, 0,
      8, 0, 4, 4,  4, 0, 0, 0,  4, 0, 0, 0,  24, 0, 0, 0,
      0x54, 0x49, 0x54, 0x4C, 0x45, 0,  0x56, 0x45, 0x52, 0x53, 0x49, 0x4F, 0x4E, 0,  0, 0,
      0x47, 0x61, 0x6D, 0x65, 0,  0, 0, 0,  1, 0, 0, 0]"

definition relabelled_resaved :: "byte list" where
  "relabelled_resaved =
     [0, 0x50, 0x53, 0x46,  1, 1, 0, 0,  52, 0, 0, 0,  12, 0, 0, 0,  2, 0, 0, 0,
      0, 0, 4, 2,  5, 0, 0, 0,  8, 0, 0, 0,  12, 0, 0, 0,
      6, 0, 4, 4,  4, 0, 0, 0,  4, 0, 0, 0,  20, 0, 0, 0,
      0x54, 0x49, 0x54, 0x4C, 0x45, 0,  0x56, 0x45, 0x52, 0x53, 0x49, 0x4F, 0x4E, 0,  0, 0,
      0x47, 0x61, 0x6D, 0x65, 0,  0, 0, 0,  1, 0, 0, 0]"

text \<open>The file at a path after \<open>SaveSFO\<close>, and the values of a decoded model.\<close>

definition file_after :: "(SFOParser \<times> filesystem) result \<Rightarrow> string \<Rightarrow> node option" where
  "file_after r path = (case r of Ok (parser, fs) \<Rightarrow> fs path | _ \<Rightarrow> None)"

definition values_of :: "SFOParser result \<Rightarrow> go_value list result" where
  "values_of r = bind r (\<lambda>parser. Ok (map Value (Pairs parser)))"

text \<open>
  One integer entry V. In \<open>short_int_file\<close> its \<open>DatafieldUsed\<close> is 2; in
  \<open>truncated_int_file\<close> it is 4 and the file ends 2 bytes into the payload.
\<close>

definition short_int_file :: "byte list" where
  "short_int_file =
     [0, 0x50, 0x53, 0x46,  1, 1, 0, 0,  36, 0, 0, 0,  40, 0, 0, 0,  1, 0, 0, 0,
      0, 0, 4, 4,  2, 0, 0, 0,  4, 0, 0, 0,  0, 0, 0, 0,
      0x56, 0, 0, 0,
      7, 0, 0, 0]"

definition truncated_int_file :: "byte list" where
  "truncated_int_file =
     [0, 0x50, 0x53, 0x46,  1, 1, 0, 0,  36, 0, 0, 0,  40, 0, 0, 0,  1, 0, 0, 0,
      0, 0, 4, 4,  4, 0, 0, 0,  4, 0, 0, 0,  0, 0, 0, 0,
      0x56, 0, 0, 0,
      7, 1]"

text \<open>One entry V whose section has the type 1.\<close>

definition unknown_type_file :: "byte list" where
  "unknown_type_file =
     [0, 0x50, 0x53, 0x46,  1, 1, 0, 0,  36, 0, 0, 0,  40, 0, 0, 0,  1, 0, 0, 0,
      0, 0, 4, 1,  4, 0, 0, 0,  4, 0, 0, 0,  0, 0, 0, 0,
      0x56, 0, 0, 0,
      7, 0, 0, 0]"

definition unknown_type_sec :: PsfSec where
  "unknown_type_sec = \<lparr>LabelOff = 0, SecUnknown = 4, DataType = 1, DatafieldUsed = 4,
     DatafieldSize = 4, DataOff = 0\<rparr>"

definition unknown_type_parser :: SFOParser where
  "unknown_type_parser =
     \<lparr>PsfHdr = \<lparr>Psf = (0, 0x50, 0x53, 0x46), Unknown = (1, 1, 0, 0), LabelPtr = 36,
                DataPtr = 40, NSects = 1\<rparr>,
      PsfSec = [unknown_type_sec],
      Pairs = [\<lparr>Label = [0x56], Type = 1, Value = VNil, PairPsfSec = unknown_type_sec\<rparr>],
      FilePath = ''PARAM.SFO''\<rparr>"

text \<open>
  One integer entry whose label VERSION lies at offset 32760 of the label block, which
  begins at offset 36 with the unused label OTHER followed by zeros; the data block is at
  offset 32804.
\<close>

definition far_label_file :: "byte list" where
  "far_label_file =
     [0, 0x50, 0x53, 0x46,  1, 1, 0, 0,  36, 0, 0, 0,  0x24, 0x80, 0, 0,  1, 0, 0, 0,
      0xF8, 0x7F, 4, 4,  4, 0, 0, 0,  4, 0, 0, 0,  0, 0, 0, 0,
      0x4F, 0x54, 0x48, 0x45, 0x52, 0]
     @ replicate 32754 0
     @ [0x56, 0x45, 0x52, 0x53, 0x49, 0x4F, 0x4E, 0,  7, 0, 0, 0]"

definition far_label_hdr :: PsfHdr where
  "far_label_hdr = \<lparr>Psf = (0, 0x50, 0x53, 0x46), Unknown = (1, 1, 0, 0), LabelPtr = 36,
     DataPtr = 32804, NSects = 1\<rparr>"

definition far_label_sec :: PsfSec where
  "far_label_sec = \<lparr>LabelOff = 32760, SecUnknown = 4, DataType = 4, DatafieldUsed = 4,
     DatafieldSize = 4, DataOff = 0\<rparr>"

definition far_label_parser :: SFOParser where
  "far_label_parser =
     \<lparr>PsfHdr = far_label_hdr, PsfSec = [far_label_sec],
      Pairs = [\<lparr>Label = [0x4F, 0x54, 0x48, 0x45, 0x52], Type = 4, Value = VInt32 7,
                 PairPsfSec = far_label_sec\<rparr>],
      FilePath = ''PARAM.SFO''\<rparr>"

text \<open>The start of a file up to an offset, zero-filled when the file is shorter.\<close>

definition front :: "byte list \<Rightarrow> nat \<Rightarrow> byte list" where
  "front content pos = take pos content @ replicate (pos - length content) 0"

section \<open>Properties\<close>

subsection \<open>Auxiliary facts\<close>

lemma bind_eq_Ok: "(bind r f = Ok y) = (\<exists>x. r = Ok x \<and> f x = Ok y)"
  by (cases r) simp_all

lemma length_put16: "length (put16 w) = 2"
  by (simp add: put16_def)

lemma length_put32: "length (put32 w) = 4"
  by (simp add: put32_def)

lemma length_encode_PsfSec: "length (encode_PsfSec s) = 16"
  by (simp add: encode_PsfSec_def length_put16 length_put32)

lemma length_encode_PsfHdr: "length (encode_PsfHdr h) = 20"
  by (cases "Psf h"; cases "Unknown h") (simp add: encode_PsfHdr_def length_put32)

lemma length_front: "length (front content pos) = pos"
  by (simp add: front_def)

lemma file_Write_front:
  "b \<noteq> [] \<Longrightarrow> file_Write content pos b
     = (front content pos @ b @ drop (pos + length b) content, pos + length b)"
  by (simp add: file_Write_def front_def)

lemma front_extend:
  "front (front content pos @ b @ rest) (pos + length b) = front content pos @ b"
  by (simp add: front_def)

lemma drop_past_front:
  "drop (pos + length b + k) (front content pos @ b @ rest) = drop k rest"
  using length_front [of content pos] by simp

lemma write_secs_eq:
  "write_secs (content, pos) secs =
     (if secs = [] then content
      else front content pos @ concat (map encode_PsfSec secs)
           @ drop (pos + 16 * length secs) content,
      pos + 16 * length secs)"
proof (induction secs arbitrary: content pos)
  case Nil
  show ?case by simp
next
  case (Cons sec secs)
  have ne: "encode_PsfSec sec \<noteq> []"
    using length_encode_PsfSec [of sec] by auto
  let ?b = "encode_PsfSec sec"
  let ?c1 = "front content pos @ ?b @ drop (pos + 16) content"
  have step: "write_secs (content, pos) (sec # secs) = write_secs (?c1, pos + 16) secs"
    using file_Write_front [OF ne, of content pos] by (simp add: length_encode_PsfSec)
  show ?case
  proof (cases "secs = []")
    case True
    then show ?thesis using step by simp
  next
    case False
    have f: "front ?c1 (pos + 16) = front content pos @ ?b"
      using front_extend [of content pos ?b "drop (pos + 16) content"]
      by (simp add: length_encode_PsfSec)
    have d: "drop (pos + 16 + 16 * length secs) ?c1
               = drop (pos + 16 + 16 * length secs) content"
      using drop_past_front [of pos ?b "16 * length secs" content "drop (pos + 16) content"]
      by (simp add: length_encode_PsfSec add.commute add.left_commute)
    show ?thesis
      using False step Cons.IH [of ?c1 "pos + 16"] f d by (simp add: add.assoc)
  qed
qed

lemma SaveSFO_file_content:
  assumes "fs (FilePath parser) = Some (File content)"
    and "SaveSFO parser fs = Ok (parser', fs')"
  shows "fs' = fs(FilePath parser \<mapsto>
           File (encode_PsfHdr (PsfHdr parser') @ concat (map encode_PsfSec (PsfSec parser'))
                 @ drop (20 + 16 * length (PsfSec parser')) content))"
proof -
  from assms have "\<exists>secs2 hdr3. parser' = parser\<lparr>PsfHdr := hdr3, PsfSec := secs2\<rparr>
      \<and> fs' = fs(FilePath parser \<mapsto>
            File (fst (file_Write (fst (write_secs (content, 20) secs2)) 0 (encode_PsfHdr hdr3))))"
    by (simp add: SaveSFO_def Let_def bind_eq_Ok Seek_def split_def) blast
  then obtain secs2 hdr3 where
    p': "parser' = parser\<lparr>PsfHdr := hdr3, PsfSec := secs2\<rparr>" and
    fs': "fs' = fs(FilePath parser \<mapsto>
            File (fst (file_Write (fst (write_secs (content, 20) secs2)) 0 (encode_PsfHdr hdr3))))"
    by blast
  have hne: "encode_PsfHdr hdr3 \<noteq> []"
    using length_encode_PsfHdr [of hdr3] by auto
  have w: "fst (file_Write c 0 (encode_PsfHdr hdr3)) = encode_PsfHdr hdr3 @ drop 20 c" for c
    using file_Write_front [OF hne, of c 0] by (simp add: front_def length_encode_PsfHdr)
  have s: "drop 20 (fst (write_secs (content, 20) secs2))
             = concat (map encode_PsfSec secs2) @ drop (20 + 16 * length secs2) content"
    using length_front [of content 20] by (simp add: write_secs_eq)
  show ?thesis
    unfolding fs' w s p' by simp
qed

lemma readByteString_loop_eq:
  "readByteString_loop content pos res =
     (if 0 \<in> set (drop pos content)
      then Ok (res @ takeWhile (\<lambda>b. b \<noteq> 0) (drop pos content),
               pos + length (takeWhile (\<lambda>b. b \<noteq> 0) (drop pos content)) + 1)
      else Err EOF)"
proof (induction content pos res rule: readByteString_loop.induct)
  case (1 content pos res)
  show ?case
  proof (cases "length content \<le> pos")
    case True
    then show ?thesis by (simp add: readByteString_loop.simps)
  next
    case False
    then have d: "drop pos content = content ! pos # drop (Suc pos) content"
      by (simp add: Cons_nth_drop_Suc)
    show ?thesis
    proof (cases "content ! pos = 0")
      case True
      then show ?thesis
        using False d by (simp add: readByteString_loop.simps [of content pos res])
    next
      case nz: False
      then show ?thesis
        using False d "1.IH" by (simp add: readByteString_loop.simps [of content pos res])
    qed
  qed
qed

lemma label_seek_in_range:
  assumes "0 \<le> sint (LabelPtr hdr)" and "0 \<le> sint (LabelOff sec)"
    and "sint (LabelPtr hdr) + sint (LabelOff sec) < 32768"
  shows "label_seek hdr sec = sint (LabelPtr hdr) + sint (LabelOff sec)"
proof -
  let ?p = "ucast (LabelPtr hdr) :: 16 word"
  have "sint (LabelPtr hdr) < 2 ^ 32" using sint_lt [of "LabelPtr hdr"] by simp
  with assms(1) have "take_bit 32 (sint (LabelPtr hdr)) = sint (LabelPtr hdr)"
    by (simp add: take_bit_int_eq_self)
  then have u: "uint (LabelPtr hdr) = sint (LabelPtr hdr)"
    using uint_sint [of "LabelPtr hdr"] by simp
  have c: "sint ?p = signed_take_bit 15 (uint (LabelPtr hdr))"
    by (simp add: sint_uint unsigned_ucast_eq signed_take_bit_take_bit)
  have r: "sint (LabelPtr hdr) < 32768" using assms by simp
  have "sint ?p = sint (LabelPtr hdr)"
    unfolding c u using assms(1) r by (simp add: signed_take_bit_int_eq_self)
  then show ?thesis
    unfolding label_seek_def sint_word_add using assms
    by (simp add: signed_take_bit_int_eq_self add.commute)
qed

lemma far_label_hdr_read:
  "ReadFull far_label_file 0 20
     = Ok ([0, 0x50, 0x53, 0x46,  1, 1, 0, 0,  36, 0, 0, 0,  0x24, 0x80, 0, 0,  1, 0, 0, 0], 20)"
  by (simp add: ReadFull_def far_label_file_def)

lemma far_label_hdr_decoded:
  "decode_PsfHdr [0, 0x50, 0x53, 0x46,  1, 1, 0, 0,  36, 0, 0, 0,  0x24, 0x80, 0, 0,  1, 0, 0, 0]
     = far_label_hdr"
  by code_simp

lemma far_label_sec_read:
  "ReadFull far_label_file 20 16
     = Ok ([0xF8, 0x7F, 4, 4,  4, 0, 0, 0,  4, 0, 0, 0,  0, 0, 0, 0], 36)"
  by (simp add: ReadFull_def far_label_file_def)

lemma far_label_sec_decoded:
  "decode_PsfSec [0xF8, 0x7F, 4, 4,  4, 0, 0, 0,  4, 0, 0, 0,  0, 0, 0, 0] = far_label_sec"
  by code_simp

lemma far_label_seeks:
  "label_seek far_label_hdr far_label_sec = - 32740"
  "data_seek far_label_hdr far_label_sec = 32804"
  "sint (DatafieldUsed far_label_sec) = 4"
  "DataType far_label_sec = 4"
  "Psf far_label_hdr = magic"
  "sint (NSects far_label_hdr) = 1"
  by code_simp+

lemma far_label_label_read:
  "readByteString far_label_file 36 = Ok ([0x4F, 0x54, 0x48, 0x45, 0x52], 42)"
  by (simp add: readByteString_def readByteString_loop.simps far_label_file_def nth_append)

lemma far_label_data_read:
  "file_Read far_label_file 32804 4 = Ok ([7, 0, 0, 0], 32808)"
  by (simp add: file_Read_def far_label_file_def)

lemma far_label_value: "decode_value 4 [7, 0, 0, 0] = Ok (VInt32 7)"
  by code_simp

text \<open>
  The scanner rejects every string without a decimal digit. The decoder panics on an
  integer payload buffer shorter than 4 bytes. Of the three places that look at a type,
  only \<open>SetValueByIndex\<close> refuses one that is none of 0, 2 and 4.
\<close>

lemma space_len_le: "space_len s \<le> length s"
  by (auto simp: space_len_def split: list.splits)

lemma SkipSpace_suffix: "SkipSpace val = Some s \<Longrightarrow> set s \<subseteq> set val"
proof (induction val rule: SkipSpace.induct)
  case (1 v)
  show ?case
  proof (cases "v = [] \<or> hd v = 0x0A \<or> space_len v = 0")
    case True
    then show ?thesis using "1.prems" by (auto split: if_splits)
  next
    case False
    then have "SkipSpace (drop (space_len v) v) = Some s"
      using "1.prems" by (simp split: if_splits)
    with False have "set s \<subseteq> set (drop (space_len v) v)"
      using "1.IH" by simp
    then show ?thesis using set_drop_subset [of "space_len v" v] by blast
  qed
qed

lemma Sscanf_d_no_digit:
  assumes "\<forall>b \<in> set val. \<not> is_digit b"
  shows "Sscanf_d val = None"
proof (cases "SkipSpace val")
  case None
  then show ?thesis by (simp add: Sscanf_d_def)
next
  case (Some s)
  let ?t = "if s \<noteq> [] \<and> hd s \<in> {0x2B, 0x2D} then tl s else s"
  have "set ?t \<subseteq> set s" by (cases s) auto
  with SkipSpace_suffix [OF Some] assms have "\<forall>b \<in> set ?t. \<not> is_digit b" by blast
  then have "takeWhile is_digit ?t = []" by (cases ?t) auto
  then show ?thesis using Some by (simp add: Sscanf_d_def Let_def)
qed

lemma decode_value_short_int:
  "length tmpbuffer < 4 \<Longrightarrow> decode_value 4 tmpbuffer = Panic IndexPanic"
  by (simp add: decode_value_def)

lemma decode_value_unknown_type:
  "ty \<notin> {0, 2, 4} \<Longrightarrow> decode_value ty tmpbuffer = Ok VNil"
  by (simp add: decode_value_def)

lemma write_value_unknown_type:
  "ty \<notin> {0, 2, 4} \<Longrightarrow> write_value ty v buf = Ok buf"
  by (simp add: write_value_def)

lemma SetValueByIndex_unknown_type:
  assumes "0 \<le> index" and "index < int (length (Pairs parser))"
    and "Type (Pairs parser ! nat index) \<notin> {0, 2, 4}"
  shows "SetValueByIndex scan parser index val = (parser, Err UnknownType)"
  using assms by (simp add: SetValueByIndex_def Let_def ByteType_def StringType_def IntType_def)

subsection \<open>alignment\<close>

text \<open>
  C5 as stated fails at the top of the range of \<open>int\<close>: for \<open>n = 2 ^ 63 - 1\<close> the sum
  \<open>n + 4 - 3\<close> wraps around and \<open>alignment\<close> returns the least \<open>int\<close>.
\<close>

theorem alignment_wraps_at_top:
  "0 \<le> sint (0x7FFFFFFFFFFFFFFF :: goint)
   \<and> alignment 0x7FFFFFFFFFFFFFFF 4 = Ok 0x8000000000000000
   \<and> sint (0x8000000000000000 :: goint) = - 9223372036854775808
   \<and> sint (0x8000000000000000 :: goint) - sint (0x7FFFFFFFFFFFFFFF :: goint) \<notin> {0, 1, 2, 3}"
  by code_simp

lemma go_rem_four:
  assumes "0 \<le> sint n"
  shows "go_rem n 4 = word_of_int (sint n mod 4)"
  using assms by (simp add: go_rem_def smod_int_alt_def sgn_if)

lemma sint_of_int_fits:
  "- (2 ^ 63) \<le> j \<Longrightarrow> j < 2 ^ 63 \<Longrightarrow> sint (word_of_int j :: goint) = j"
  by (simp add: sint_sbintrunc' signed_take_bit_int_eq_self)

lemma small_word_zero_iff:
  "0 \<le> j \<Longrightarrow> j < 4 \<Longrightarrow> ((word_of_int j :: goint) = 0) = (j = 0)"
  using sint_of_int_fits [of j] by (auto simp: )

text \<open>
  C5. For every \<open>n\<close> from 0 to \<open>2 ^ 63 - 4\<close>, \<open>alignment n 4\<close> returns \<open>n\<close> when \<open>n\<close> is a
  multiple of 4 and \<open>n + (4 - n mod 4)\<close> otherwise; aligning the result again returns it
  unchanged, and the result exceeds \<open>n\<close> by 0, 1, 2 or 3.
\<close>

theorem alignment_four:
  assumes "0 \<le> sint n" and "sint n \<le> 2 ^ 63 - 4"
  shows "\<exists>m. alignment n 4 = Ok m
           \<and> sint m = (if sint n mod 4 = 0 then sint n else sint n + (4 - sint n mod 4))
           \<and> alignment m 4 = Ok m
           \<and> sint m - sint n \<in> {0, 1, 2, 3}"
proof -
  let ?k = "sint n"
  let ?r = "?k mod 4"
  let ?j = "if ?r = 0 then ?k else ?k + (4 - ?r)"
  have r_bounds: "0 \<le> ?r" "?r < 4" by simp_all
  have tmp: "go_rem n 4 = word_of_int ?r"
    using assms(1) by (rule go_rem_four)
  have tmp_zero: "(go_rem n 4 = 0) = (?r = 0)"
    unfolding tmp using r_bounds by (rule small_word_zero_iff)
  have n_eq: "n = word_of_int ?k" by simp
  have j_range: "- (2 ^ 63) \<le> ?j" "?j < 2 ^ 63"
    using assms r_bounds by auto
  have j_mod: "?j mod 4 = 0" by presburger
  have j_nonneg: "0 \<le> ?j" using assms(1) r_bounds by auto
  define m :: goint where "m = word_of_int ?j"
  have sint_m: "sint m = ?j"
    unfolding m_def using j_range by (rule sint_of_int_fits)
  have four: "(4 :: goint) \<noteq> 0" by simp
  have first: "alignment n 4 = Ok m"
  proof (cases "?r = 0")
    case True
    then have "m = n" by (simp add: m_def)
    moreover have "go_rem n 4 = 0" using True tmp_zero by simp
    ultimately show ?thesis using four by (simp add: alignment_def)
  next
    case False
    then have "m = n + 4 - go_rem n 4" by (simp add: m_def tmp)
    moreover have "go_rem n 4 \<noteq> 0" using False tmp_zero by simp
    ultimately show ?thesis using four by (simp add: alignment_def)
  qed
  have "go_rem m 4 = word_of_int (sint m mod 4)"
    using j_nonneg sint_m by (intro go_rem_four) simp
  then have "go_rem m 4 = 0" using sint_m j_mod by simp
  then have again: "alignment m 4 = Ok m"
    using four by (simp add: alignment_def)
  have gap: "sint m - ?k \<in> {0, 1, 2, 3}"
    unfolding sint_m using r_bounds by auto
  from first sint_m again gap show ?thesis by blast
qed

theorem alignment_four_witness:
  "0 \<le> sint (13 :: goint) \<and> sint (13 :: goint) \<le> 2 ^ 63 - 4
   \<and> alignment 13 4 = Ok 16 \<and> alignment 16 4 = Ok 16"
proof -
  have a: "0 \<le> sint (13 :: goint)" by simp
  have b: "sint (13 :: goint) \<le> 2 ^ 63 - 4" by simp
  from alignment_four [OF a b] obtain m where
    m: "alignment 13 4 = Ok m" "alignment m 4 = Ok m" by blast
  have "alignment 13 4 = Ok 16" by code_simp
  with m a b show ?thesis by simp
qed

text \<open>The bound is the last multiple of 4: one more and the result wraps.\<close>

lemma alignment_bound_tight:
  "alignment 0x7FFFFFFFFFFFFFFC 4 = Ok 0x7FFFFFFFFFFFFFFC
   \<and> alignment 0x7FFFFFFFFFFFFFFD 4 = Ok 0x8000000000000000"
  by code_simp

subsection \<open>The decoder\<close>

text \<open>
  C7 as stated fails on a stream shorter than the header: the header is read before the
  magic is looked at, and the short read is the error. The stream here is the 4 bytes
  BAD!.
\<close>

theorem bad_magic_short_stream:
  "NewSFOParser [''PARAM.SFO'' \<mapsto> File [0x42, 0x41, 0x44, 0x21]] ''PARAM.SFO''
     = Err UnexpectedEOF
   \<and> NewSFOParser [''PARAM.SFO'' \<mapsto> File [0x42, 0x41, 0x44, 0x21]] ''PARAM.SFO''
     \<noteq> Err NotValidSFO"
  by code_simp

text \<open>
  C7. A stream of at least 20 bytes whose first 4 bytes are not \<open>0x00 'P' 'S' 'F'\<close> is
  refused with "not a valid SFO file", whatever the rest of the stream is.
\<close>

theorem bad_magic_rejected:
  assumes "fs filePath = Some (File content)" and "20 \<le> length content"
    and "take 4 content \<noteq> [0, 0x50, 0x53, 0x46]"
  shows "NewSFOParser fs filePath = Err NotValidSFO"
proof -
  have rd: "ReadFull content 0 20 = Ok (take 20 content, 20)"
    using assms(2) by (auto simp: ReadFull_def)
  from assms(2) have "4 \<le> length content" by simp
  then obtain c0 c1 c2 c3 r where "content = c0 # c1 # c2 # c3 # r"
    by (auto simp: numeral_eq_Suc Suc_le_length_iff)
  then have "take 4 content = [content ! 0, content ! 1, content ! 2, content ! 3]"
    by simp
  with assms(3) have "Psf (decode_PsfHdr (take 20 content)) \<noteq> magic"
    by (auto simp: decode_PsfHdr_def magic_def)
  then show ?thesis
    using assms(1) rd by (simp add: NewSFOParser_def Let_def)
qed

theorem bad_magic_rejected_witness:
  "[''PARAM.SFO'' \<mapsto> File (replicate 20 0x41)] ''PARAM.SFO'' = Some (File (replicate 20 0x41))
   \<and> 20 \<le> length (replicate 20 (0x41 :: byte))
   \<and> take 4 (replicate 20 (0x41 :: byte)) \<noteq> [0, 0x50, 0x53, 0x46]
   \<and> NewSFOParser [''PARAM.SFO'' \<mapsto> File (replicate 20 0x41)] ''PARAM.SFO'' = Err NotValidSFO"
proof -
  have a: "[''PARAM.SFO'' \<mapsto> File (replicate 20 0x41)] ''PARAM.SFO'' = Some (File (replicate 20 0x41))"
    by simp
  have b: "20 \<le> length (replicate 20 (0x41 :: byte))" by simp
  have c: "take 4 (replicate 20 (0x41 :: byte)) \<noteq> [0, 0x50, 0x53, 0x46]"
    by code_simp
  from bad_magic_rejected [of "[''PARAM.SFO'' \<mapsto> File (replicate 20 0x41)]" "''PARAM.SFO''"
      "replicate 20 0x41", OF a b c] a b c
  show ?thesis by blast
qed

text \<open>
  C4. The label of a section is to be read at \<open>LabelPtr + LabelOff\<close>. With
  \<open>LabelPtr = 36\<close> and \<open>LabelOff = 32760\<close> the 16-bit sum is negative, the seek fails and
  the label is read where the file offset was, at 36: the decoder returns OTHER, while
  the bytes at offset \<open>36 + 32760\<close> spell VERSION.
\<close>

theorem label_offset_sum_wraps:
  "NewSFOParser [''PARAM.SFO'' \<mapsto> File far_label_file] ''PARAM.SFO'' = Ok far_label_parser
   \<and> takeWhile (\<lambda>b. b \<noteq> 0) (drop (36 + 32760) far_label_file)
       = [0x56, 0x45, 0x52, 0x53, 0x49, 0x4F, 0x4E]"
proof -
  have "NewSFOParser [''PARAM.SFO'' \<mapsto> File far_label_file] ''PARAM.SFO'' = Ok far_label_parser"
    by (simp add: NewSFOParser_def far_label_hdr_read far_label_hdr_decoded far_label_seeks
        far_label_sec_read far_label_sec_decoded Seek_def far_label_label_read
        far_label_data_read far_label_value far_label_parser_def)
  moreover have "takeWhile (\<lambda>b. b \<noteq> 0) (drop (36 + 32760) far_label_file)
       = [0x56, 0x45, 0x52, 0x53, 0x49, 0x4F, 0x4E]"
    by (simp add: far_label_file_def)
  ultimately show ?thesis by simp
qed

text \<open>
  C3. An integer section whose payload is shorter than 4 bytes is to be refused with an
  error. With \<open>DatafieldUsed = 2\<close> the decoder panics; with \<open>DatafieldUsed = 4\<close> and
  only 2 bytes left in the file it succeeds, reading the missing bytes as 0.
\<close>

theorem short_integer_payload:
  "NewSFOParser [''PARAM.SFO'' \<mapsto> File short_int_file] ''PARAM.SFO'' = Panic IndexPanic
   \<and> values_of (NewSFOParser [''PARAM.SFO'' \<mapsto> File truncated_int_file] ''PARAM.SFO'')
       = Ok [VInt32 263]"
  by code_simp

subsection \<open>The encoder\<close>

text \<open>
  C1. \<open>SaveSFO\<close> is to write the header, the sections, the label block and the data block.
  On the example model over an existing empty file it writes the header and the two
  sections, 52 bytes, and nothing after them: the label block and the data block are
  built in the buffer and never reach the file.
\<close>

theorem save_writes_header_and_sections_only:
  "file_after (SaveSFO example_parser [''PARAM.SFO'' \<mapsto> File []]) ''PARAM.SFO''
     = Some (File example_saved_head)
   \<and> length example_saved_head = 52"
  by code_simp

text \<open>
  C2. Decoding and saving again is to give back the same bytes. The example stream
  decodes to the example model, and saving that model over the stream changes the header's
  \<open>DataPtr\<close> from 68 to 16 and the two \<open>DataOff\<close> from 0 and 8 to 16 and 24. A stream
  that \<open>SaveSFO\<close> wrote itself, after a label was changed, decodes too, and saving the
  decoded model changes it again.
\<close>

theorem roundtrip_changes_example_file:
  "NewSFOParser [''PARAM.SFO'' \<mapsto> File example_file] ''PARAM.SFO'' = Ok example_parser
   \<and> file_after (SaveSFO example_parser [''PARAM.SFO'' \<mapsto> File example_file]) ''PARAM.SFO''
       = Some (File example_resaved)
   \<and> example_resaved \<noteq> example_file
   \<and> file_after
         (SaveSFO (fst (SetLabelByIndex example_parser 0 [0x54, 0x49, 0x54, 0x4C, 0x45, 0x49, 0x44]))
            [''PARAM.SFO'' \<mapsto> File example_file]) ''PARAM.SFO''
       = Some (File relabelled_file)
   \<and> file_after
         (bind (NewSFOParser [''PARAM.SFO'' \<mapsto> File relabelled_file] ''PARAM.SFO'')
            (\<lambda>parser. SaveSFO parser [''PARAM.SFO'' \<mapsto> File relabelled_file])) ''PARAM.SFO''
       = Some (File relabelled_resaved)
   \<and> relabelled_resaved \<noteq> relabelled_file"
  by code_simp

text \<open>
  C8. A type outside 0, 2 and 4 is to be refused by the decoder, the encoder and
  \<open>SetValueByIndex\<close>. The decoder accepts a section of type 1 and leaves the value
  \<open>nil\<close>; the encoder saves that model without error, writing no data for the entry.
\<close>

theorem unknown_type_accepted:
  "NewSFOParser [''PARAM.SFO'' \<mapsto> File unknown_type_file] ''PARAM.SFO'' = Ok unknown_type_parser
   \<and> file_after (SaveSFO unknown_type_parser [''PARAM.SFO'' \<mapsto> File unknown_type_file])
         ''PARAM.SFO''
       = Some (File
          [0, 0x50, 0x53, 0x46,  1, 1, 0, 0,  36, 0, 0, 0,  4, 0, 0, 0,  1, 0, 0, 0,
           0, 0, 4, 1,  0, 0, 0, 0,  0, 0, 0, 0,  4, 0, 0, 0,
           0x56, 0, 0, 0,
           7, 0, 0, 0])"
  by code_simp

subsection \<open>Accessors and mutators\<close>

text \<open>
  C9. With \<open>n\<close> entries, each of the five position-based operations returns
  "index out of range" exactly when the index is negative or at least \<open>n\<close>.
\<close>

theorem index_bounds_check:
  "(GetValueByIndex parser index = Err IndexOutOfRange)
      = (index < 0 \<or> int (length (Pairs parser)) \<le> index)
   \<and> (GetKeyByIndex parser index = Err IndexOutOfRange)
      = (index < 0 \<or> int (length (Pairs parser)) \<le> index)
   \<and> (GetTypeByIndex parser index = Err IndexOutOfRange)
      = (index < 0 \<or> int (length (Pairs parser)) \<le> index)
   \<and> (snd (SetValueByIndex scan parser index val) = Err IndexOutOfRange)
      = (index < 0 \<or> int (length (Pairs parser)) \<le> index)
   \<and> (snd (SetLabelByIndex parser index val) = Err IndexOutOfRange)
      = (index < 0 \<or> int (length (Pairs parser)) \<le> index)"
  by (auto simp: GetValueByIndex_def GetKeyByIndex_def GetTypeByIndex_def SetValueByIndex_def
      SetLabelByIndex_def Let_def split: option.splits)





text \<open>
  C10. On a text-typed entry at a valid index, \<open>SetValueByIndex\<close> panics, rather than
  returning an error, exactly when the input string is empty; on every non-empty string it
  returns without error.
\<close>

theorem SetValueByIndex_string_panics_iff_empty:
  assumes "0 \<le> index" and "index < int (length (Pairs parser))"
    and "Type (Pairs parser ! nat index) = StringType"
  shows "(snd (SetValueByIndex scan parser index val) = Panic IndexPanic) = (val = [])
       \<and> (val \<noteq> [] \<longrightarrow> snd (SetValueByIndex scan parser index val) = Ok ())"
  using assms by (simp add: SetValueByIndex_def Let_def ByteType_def StringType_def)

theorem SetValueByIndex_string_panics_iff_empty_witness:
  "(0::int) \<le> 0 \<and> 0 < int (length (Pairs example_parser))
   \<and> Type (Pairs example_parser ! nat 0) = StringType
   \<and> snd (SetValueByIndex Sscanf_d example_parser 0 []) = Panic IndexPanic
   \<and> snd (SetValueByIndex Sscanf_d example_parser 0 [0x41]) = Ok ()"
proof -
  have a: "(0::int) \<le> 0" by simp
  have b: "0 < int (length (Pairs example_parser))" by (simp add: example_parser_def)
  have c: "Type (Pairs example_parser ! nat 0) = StringType" by code_simp
  from SetValueByIndex_string_panics_iff_empty [OF a b c, of Sscanf_d "[]"]
    SetValueByIndex_string_panics_iff_empty [OF a b c, of Sscanf_d "[0x41]"] a b c
  show ?thesis by simp
qed

end
